theory Spec2Isabelle
  imports Main "HOL-Library.Word"
begin

section \<open>The call-trace recorder of \<^verbatim>\<open>turbo/jsonrpc/otterscan_trace_transaction.go\<close>\<close>

subsection \<open>Data\<close>

text \<open>
  \<^verbatim>\<open>common.Address\<close> is a 20-byte array, \<^verbatim>\<open>vm.OpCode\<close> a byte, \<^verbatim>\<open>uint256.Int\<close> a 256-bit
  unsigned integer, \<^verbatim>\<open>[]byte\<close> a byte sequence. Go's \<^verbatim>\<open>int\<close> is a 64-bit two's complement
  integer on every platform Erigon builds for: \<open>+\<close> and \<open>-\<close> wrap, \<open>sint\<close> reads it.
\<close>

type_synonym address = "160 word"
type_synonym bytes = "8 word list"
type_synonym OpCode = "8 word"
type_synonym uint256 = "256 word"
type_synonym go_int = "64 word"
type_synonym uint64 = "64 word"

text \<open>
  \<^verbatim>\<open>type TraceEntry struct\<close> (lines 45-53). \<open>Value\<close> is a \<^verbatim>\<open>*hexutil.Big\<close>: \<open>None\<close> is the
  nil pointer, \<open>Some n\<close> an owned big integer. \<open>Input\<close> and \<open>Output\<close> are
  \<^verbatim>\<open>hexutil.Bytes\<close>: \<open>None\<close> is the nil slice, \<open>Some bs\<close> an owned buffer.
\<close>

record TraceEntry =
  Type :: string
  Depth :: go_int
  From :: address
  To :: address
  Value :: "int option"
  Input :: "bytes option"
  Output :: "bytes option"

text \<open>
  \<^verbatim>\<open>type TransactionTracer struct\<close> (lines 55-61). \<open>Results\<close> and \<open>stack\<close> are slices of
  \<^emph>\<open>pointers\<close> to entries, and \<^verbatim>\<open>captureEndOrExit\<close> writes through such a pointer, so the
  entries live in an explicit store: \<open>heap\<close> maps an address to the entry allocated there,
  \<open>nxt\<close> is the next address \<^verbatim>\<open>&TraceEntry{...}\<close> hands out, and both slices hold addresses.
  The embedded \<^verbatim>\<open>DefaultTracer\<close> and the field \<^verbatim>\<open>ctx\<close> are not touched by any function here.
\<close>

record TransactionTracer =
  Results :: "nat list"
  depth :: go_int
  stack :: "nat list"
  heap :: "nat \<Rightarrow> TraceEntry"
  nxt :: nat

text \<open>A Go runtime panic ends the call; the tracer is local to \<^verbatim>\<open>TraceTransaction\<close> and is lost.\<close>

datatype panic = IndexOutOfRange | NilDereference

text \<open>The zero value of \<^verbatim>\<open>TraceEntry\<close>, held by every address not yet allocated.\<close>

definition zeroEntry :: TraceEntry where
  "zeroEntry = \<lparr>Type = [], Depth = 0, From = 0, To = 0, Value = None, Input = None, Output = None\<rparr>"

text \<open>\<^verbatim>\<open>NewTransactionTracer\<close> (lines 63-69): two empty slices, depth 0.\<close>

definition NewTransactionTracer :: TransactionTracer where
  "NewTransactionTracer = \<lparr>Results = [], depth = 0, stack = [], heap = (\<lambda>_. zeroEntry), nxt = 0\<rparr>"

subsection \<open>What the recorder imports\<close>

text \<open>
  Modelled from the spec: the opcode constants \<^verbatim>\<open>vm.CALL\<close>, ... are declared in
  \<^verbatim>\<open>core/vm/opcodes.go\<close>, which is not among the sources. The spec lists the kinds as
  seven distinct ones; the bytes below are those of the EVM instruction set, and only
  that they are pairwise distinct is ever used.
\<close>

definition CREATE :: OpCode where "CREATE = 0xf0"
definition CALL :: OpCode where "CALL = 0xf1"
definition CALLCODE :: OpCode where "CALLCODE = 0xf2"
definition DELEGATECALL :: OpCode where "DELEGATECALL = 0xf4"
definition CREATE2 :: OpCode where "CREATE2 = 0xf5"
definition STATICCALL :: OpCode where "STATICCALL = 0xfa"
definition SELFDESTRUCT :: OpCode where "SELFDESTRUCT = 0xff"

text \<open>
  \<^verbatim>\<open>(*uint256.Int).ToBig\<close> belongs to the module \<^verbatim>\<open>github.com/holiman/uint256\<close>, which is
  not among the sources. On a non-nil receiver it returns a fresh \<^verbatim>\<open>big.Int\<close> of the same
  value. What it does on a nil receiver decides what lines 89, 91, 94 and 98 do with an
  absent value, and is a parameter of the model: \<open>NilReturnsNil\<close> is a \<^verbatim>\<open>ToBig\<close> that
  answers nil for a nil receiver, \<open>NilPanics\<close> one that reads its receiver and panics.
  Every property below is stated for both, or says which one it needs.
\<close>

datatype nil_receiver = NilReturnsNil | NilPanics

definition ToBig :: "nil_receiver \<Rightarrow> uint256 option \<Rightarrow> panic + int option" where
  "ToBig lib z =
     (case z of
        Some w \<Rightarrow> Inr (Some (uint w))
      | None \<Rightarrow> (case lib of NilReturnsNil \<Rightarrow> Inr None | NilPanics \<Rightarrow> Inl NilDereference))"

subsection \<open>Opening a call\<close>

text \<open>
  \<^verbatim>\<open>captureStartOrEnter\<close> (lines 71-108). \<open>inputCopy\<close> is a fresh buffer of
  \<^verbatim>\<open>len(input)\<close> bytes (never nil, also for a nil \<open>input\<close>). \<open>value'\<close> is \<^verbatim>\<open>_value\<close>: a fresh
  zero, set to the value when the pointer is not nil (lines 74-77; \<^verbatim>\<open>ToBig\<close> is called on a
  non-nil receiver there). The \<open>if\<close> chain of lines 80-99 builds the entry, or panics:
  line 93 indexes \<open>Results\<close> at \<^verbatim>\<open>len - 1\<close> before line 94 converts the value. Lines
  102-107 allocate the entry, append its address to \<open>Results\<close> unless \<open>precompile\<close>, and
  push it on \<open>stack\<close> in every case.
\<close>

definition captureStartOrEnter ::
  "nil_receiver \<Rightarrow> OpCode \<Rightarrow> address \<Rightarrow> address \<Rightarrow> bool \<Rightarrow> bytes \<Rightarrow> uint256 option
     \<Rightarrow> TransactionTracer \<Rightarrow> panic + TransactionTracer" where
  "captureStartOrEnter lib typ from to precompile input value t =
     (let inputCopy = Some input;
          value' = (case value of None \<Rightarrow> 0 | Some w \<Rightarrow> uint w);
          entry =
            (if typ = CALL then
               Inr \<lparr>Type = ''CALL'', Depth = depth t, From = from, To = to,
                    Value = Some value', Input = inputCopy, Output = None\<rparr>
             else if typ = STATICCALL then
               Inr \<lparr>Type = ''STATICCALL'', Depth = depth t, From = from, To = to,
                    Value = None, Input = inputCopy, Output = None\<rparr>
             else if typ = DELEGATECALL then
               Inr \<lparr>Type = ''DELEGATECALL'', Depth = depth t, From = from, To = to,
                    Value = None, Input = inputCopy, Output = None\<rparr>
             else if typ = CALLCODE then
               Inr \<lparr>Type = ''CALLCODE'', Depth = depth t, From = from, To = to,
                    Value = Some value', Input = inputCopy, Output = None\<rparr>
             else if typ = CREATE then
               (case ToBig lib value of
                  Inl p \<Rightarrow> Inl p
                | Inr v \<Rightarrow> Inr \<lparr>Type = ''CREATE'', Depth = depth t, From = from, To = to,
                                 Value = v, Input = inputCopy, Output = None\<rparr>)
             else if typ = CREATE2 then
               (case ToBig lib value of
                  Inl p \<Rightarrow> Inl p
                | Inr v \<Rightarrow> Inr \<lparr>Type = ''CREATE2'', Depth = depth t, From = from, To = to,
                                 Value = v, Input = inputCopy, Output = None\<rparr>)
             else if typ = SELFDESTRUCT then
               (if Results t = [] then Inl IndexOutOfRange
                else
                  (let last = heap t (Results t ! (length (Results t) - 1)) in
                   case ToBig lib value of
                     Inl p \<Rightarrow> Inl p
                   | Inr v \<Rightarrow> Inr \<lparr>Type = ''SELFDESTRUCT'', Depth = Depth last + 1, From = from,
                                    To = to, Value = v, Input = None, Output = None\<rparr>))
             else
               (case ToBig lib value of
                  Inl p \<Rightarrow> Inl p
                | Inr v \<Rightarrow> Inr \<lparr>Type = ''UNKNOWN'', Depth = depth t, From = from, To = to,
                                 Value = v, Input = inputCopy, Output = None\<rparr>))
      in case entry of
           Inl p \<Rightarrow> Inl p
         | Inr e \<Rightarrow>
             (let a = nxt t;
                  t1 = t\<lparr>heap := (heap t)(a := e), nxt := Suc a\<rparr>;
                  t2 = (if \<not> precompile then t1\<lparr>Results := Results t1 @ [a]\<rparr> else t1)
              in Inr (t2\<lparr>stack := stack t2 @ [a]\<rparr>)))"

text \<open>
  \<^verbatim>\<open>CaptureStart\<close> (lines 110-113) and \<^verbatim>\<open>CaptureEnter\<close> (lines 115-118). The engine handle
  \<^verbatim>\<open>env\<close> is not read and has no model; \<open>create\<close>, \<open>gas\<close> and \<open>code\<close> are passed
  and ignored, as in the source.
\<close>

definition CaptureStart ::
  "nil_receiver \<Rightarrow> address \<Rightarrow> address \<Rightarrow> bool \<Rightarrow> bool \<Rightarrow> bytes \<Rightarrow> uint64 \<Rightarrow> uint256 option \<Rightarrow> bytes
     \<Rightarrow> TransactionTracer \<Rightarrow> panic + TransactionTracer" where
  "CaptureStart lib from to precompile create input gas value code t =
     captureStartOrEnter lib CALL from to precompile input value (t\<lparr>depth := 0\<rparr>)"

definition CaptureEnter ::
  "nil_receiver \<Rightarrow> OpCode \<Rightarrow> address \<Rightarrow> address \<Rightarrow> bool \<Rightarrow> bool \<Rightarrow> bytes \<Rightarrow> uint64
     \<Rightarrow> uint256 option \<Rightarrow> bytes \<Rightarrow> TransactionTracer \<Rightarrow> panic + TransactionTracer" where
  "CaptureEnter lib typ from to precompile create input gas value code t =
     captureStartOrEnter lib typ from to precompile input value (t\<lparr>depth := depth t + 1\<rparr>)"

subsection \<open>Closing a call\<close>

text \<open>
  \<^verbatim>\<open>captureEndOrExit\<close> (lines 120-130): the depth goes down, then line 124 indexes \<open>stack\<close>
  at \<^verbatim>\<open>len - 1\<close>, which panics on an empty stack; otherwise the last address is removed and a
  fresh copy of \<open>output\<close> is stored through it. An \<^verbatim>\<open>error\<close> is nil or carries a message.
\<close>

definition captureEndOrExit ::
  "bytes \<Rightarrow> uint64 \<Rightarrow> string option \<Rightarrow> TransactionTracer \<Rightarrow> panic + TransactionTracer" where
  "captureEndOrExit output usedGas err t =
     (let t1 = t\<lparr>depth := depth t - 1\<rparr> in
      if stack t1 = [] then Inl IndexOutOfRange
      else
        (let lastIdx = length (stack t1) - 1;
             pop = stack t1 ! lastIdx;
             t2 = t1\<lparr>stack := take lastIdx (stack t1)\<rparr>;
             outputCopy = Some output
         in Inr (t2\<lparr>heap := (heap t2)(pop := (heap t2 pop)\<lparr>Output := outputCopy\<rparr>)\<rparr>)))"

definition CaptureExit ::
  "bytes \<Rightarrow> uint64 \<Rightarrow> string option \<Rightarrow> TransactionTracer \<Rightarrow> panic + TransactionTracer" where
  "CaptureExit output usedGas err t = captureEndOrExit output usedGas err t"

definition CaptureEnd ::
  "bytes \<Rightarrow> uint64 \<Rightarrow> string option \<Rightarrow> TransactionTracer \<Rightarrow> panic + TransactionTracer" where
  "CaptureEnd output usedGas err t = captureEndOrExit output usedGas err t"

subsection \<open>Notification streams\<close>

text \<open>
  The execution engine drives one recorder through one notification at a time. A
  notification is one call of the four exported methods with its arguments (all but the
  engine handle of \<^verbatim>\<open>CaptureStart\<close>); \<open>notify\<close> makes that call, and \<open>run\<close> makes the
  calls of a stream in order and stops at the first panic.
\<close>

datatype notification =
    OnStart address address bool bool bytes uint64 "uint256 option" bytes
  | OnEnter OpCode address address bool bool bytes uint64 "uint256 option" bytes
  | OnExit bytes uint64 "string option"
  | OnEnd bytes uint64 "string option"

fun notify :: "nil_receiver \<Rightarrow> notification \<Rightarrow> TransactionTracer \<Rightarrow> panic + TransactionTracer" where
  "notify lib (OnStart from to precompile create input gas value code) t =
     CaptureStart lib from to precompile create input gas value code t"
| "notify lib (OnEnter typ from to precompile create input gas value code) t =
     CaptureEnter lib typ from to precompile create input gas value code t"
| "notify lib (OnExit output usedGas err) t = CaptureExit output usedGas err t"
| "notify lib (OnEnd output usedGas err) t = CaptureEnd output usedGas err t"

fun run :: "nil_receiver \<Rightarrow> notification list \<Rightarrow> TransactionTracer \<Rightarrow> panic + TransactionTracer" where
  "run lib [] t = Inr t"
| "run lib (n # ns) t = (case notify lib n t of Inl p \<Rightarrow> Inl p | Inr t' \<Rightarrow> run lib ns t')"

text \<open>
  What \<^verbatim>\<open>TraceTransaction\<close> returns (line 42) is \<open>Results\<close>; \<open>trace\<close> reads the entries
  its pointers lead to, \<open>pending\<close> those of the stack, and \<open>newest\<close> the entry on top of
  the stack, which after an opening notification is the entry that notification made.
\<close>

definition trace :: "TransactionTracer \<Rightarrow> TraceEntry list" where
  "trace t = map (heap t) (Results t)"

definition pending :: "TransactionTracer \<Rightarrow> TraceEntry list" where
  "pending t = map (heap t) (stack t)"

definition newest :: "TransactionTracer \<Rightarrow> TraceEntry" where
  "newest t = heap t (last (stack t))"

text \<open>
  A stream is well formed when it is one \<open>OnStart\<close>, then \<open>OnEnter\<close> and \<open>OnExit\<close>
  strictly nested, then one \<open>OnEnd\<close>. \<open>nested k\<close> reads the rest of a stream with \<open>k\<close>
  enters open.
\<close>

fun nested :: "nat \<Rightarrow> notification list \<Rightarrow> bool" where
  "nested k [] = False"
| "nested k (OnStart from to precompile create input gas value code # ns) = False"
| "nested k (OnEnter typ from to precompile create input gas value code # ns) = nested (Suc k) ns"
| "nested k (OnExit output usedGas err # ns) = (case k of 0 \<Rightarrow> False | Suc j \<Rightarrow> nested j ns)"
| "nested k (OnEnd output usedGas err # ns) = (k = 0 \<and> ns = [])"

fun well_formed :: "notification list \<Rightarrow> bool" where
  "well_formed (OnStart from to precompile create input gas value code # ns) = nested 0 ns"
| "well_formed ns = False"

fun is_enter :: "notification \<Rightarrow> bool" where
  "is_enter (OnEnter typ from to precompile create input gas value code) = True"
| "is_enter n = False"

fun is_exit :: "notification \<Rightarrow> bool" where
  "is_exit (OnExit output usedGas err) = True"
| "is_exit n = False"

text \<open>The enters of a stream that no exit of the stream has closed.\<close>

definition open_enters :: "notification list \<Rightarrow> nat" where
  "open_enters ns = length (filter is_enter ns) - length (filter is_exit ns)"

text \<open>The notifications that open a call, and the kind they open it with.\<close>

fun opens :: "notification \<Rightarrow> OpCode option" where
  "opens (OnStart from to precompile create input gas value code) = Some CALL"
| "opens (OnEnter typ from to precompile create input gas value code) = Some typ"
| "opens n = None"

text \<open>
  Every address the two slices hold has been handed out: the invariant under which the
  address a new entry gets is not one already in use.
\<close>

definition allocated :: "TransactionTracer \<Rightarrow> bool" where
  "allocated t = (list_all (\<lambda>a. a < nxt t) (Results t) \<and> list_all (\<lambda>a. a < nxt t) (stack t))"

section \<open>Properties\<close>

subsection \<open>Auxiliary facts\<close>

lemma opcodes_distinct:
  "distinct [CALL, STATICCALL, DELEGATECALL, CALLCODE, CREATE, CREATE2, SELFDESTRUCT]"
  by (simp add: CALL_def STATICCALL_def DELEGATECALL_def CALLCODE_def CREATE_def CREATE2_def
      SELFDESTRUCT_def)

lemmas opcode_defs =
  CALL_def STATICCALL_def DELEGATECALL_def CALLCODE_def CREATE_def CREATE2_def SELFDESTRUCT_def

lemmas capture_defs =
  CaptureStart_def CaptureEnter_def CaptureExit_def CaptureEnd_def captureStartOrEnter_def
  captureEndOrExit_def

text \<open>What every returning \<open>CaptureEnter\<close> does to the recorder, whatever the kind.\<close>

lemma CaptureEnter_frame:
  "CaptureEnter lib typ from to precompile create input gas value code t = Inr t' \<Longrightarrow>
     depth t' = depth t + 1 \<and> stack t' = stack t @ [nxt t] \<and> nxt t' = Suc (nxt t) \<and>
     Results t' = (if precompile then Results t else Results t @ [nxt t]) \<and>
     (\<forall>a. a \<noteq> nxt t \<longrightarrow> heap t' a = heap t a)"
  by (auto simp: CaptureEnter_def captureStartOrEnter_def Let_def split: if_splits sum.splits)

lemma CaptureEnter_Depth:
  "CaptureEnter lib typ from to precompile create input gas value code t = Inr t' \<Longrightarrow>
     typ \<noteq> SELFDESTRUCT \<Longrightarrow> Depth (newest t') = depth t + 1"
  by (auto simp: CaptureEnter_def captureStartOrEnter_def Let_def newest_def
      split: if_splits sum.splits)

lemma captureEndOrExit_depth:
  "captureEndOrExit output usedGas err t = Inr t' \<Longrightarrow> depth t' = depth t - 1"
  by (auto simp: captureEndOrExit_def Let_def split: if_splits)

lemma run_append:
  "run lib (xs @ ys) t = (case run lib xs t of Inl p \<Rightarrow> Inl p | Inr t' \<Rightarrow> run lib ys t')"
  by (induction xs arbitrary: t) (auto split: sum.splits)

text \<open>Before any later notification of a nested stream there are only enters and exits,
  and never more exits than enters.\<close>

lemma nested_prefix:
  "nested k (pre @ n # post) \<Longrightarrow>
     list_all (\<lambda>m. is_enter m \<or> is_exit m) pre \<and>
     length (filter is_exit pre) \<le> k + length (filter is_enter pre)"
proof (induction pre arbitrary: k)
  case Nil
  then show ?case by simp
next
  case (Cons p pre)
  show ?case
  proof (cases p)
    case (OnStart x11 x12 x13 x14 x15 x16 x17 x18)
    with Cons.prems show ?thesis by simp
  next
    case (OnEnter x21 x22 x23 x24 x25 x26 x27 x28 x29)
    with Cons.prems have "nested (Suc k) (pre @ n # post)" by simp
    from Cons.IH [OF this] OnEnter show ?thesis by simp
  next
    case (OnExit x31 x32 x33)
    with Cons.prems obtain j where k: "k = Suc j" and "nested j (pre @ n # post)"
      by (cases k) auto
    from Cons.IH [OF this(2)] OnExit k show ?thesis by simp
  next
    case (OnEnd x41 x42 x43)
    with Cons.prems show ?thesis by simp
  qed
qed

lemma nested_opens_enter: "nested k (pre @ n # post) \<Longrightarrow> opens n \<noteq> None \<Longrightarrow> is_enter n"
proof (induction pre arbitrary: k)
  case Nil
  then show ?case by (cases n) auto
next
  case (Cons p pre)
  then show ?case by (cases p) (auto split: nat.splits)
qed

text \<open>The depth counter after a run of enters and exits, in the arithmetic of \<^verbatim>\<open>int\<close>.\<close>

lemma run_depth:
  "list_all (\<lambda>m. is_enter m \<or> is_exit m) ns \<Longrightarrow> run lib ns t = Inr t' \<Longrightarrow>
     depth t' = depth t + of_nat (length (filter is_enter ns)) - of_nat (length (filter is_exit ns))"
proof (induction ns arbitrary: t)
  case Nil
  then show ?case by simp
next
  case (Cons n ns)
  from Cons.prems(2) obtain t1 where t1: "notify lib n t = Inr t1" and r: "run lib ns t1 = Inr t'"
    by (auto split: sum.splits)
  from Cons.prems(1) have all: "list_all (\<lambda>m. is_enter m \<or> is_exit m) ns" by simp
  note ih = Cons.IH [OF all r]
  show ?case
  proof (cases n)
    case (OnEnter x21 x22 x23 x24 x25 x26 x27 x28 x29)
    with t1 have "depth t1 = depth t + 1" by (simp add: CaptureEnter_frame)
    with ih OnEnter show ?thesis by simp
  next
    case (OnExit x31 x32 x33)
    with t1 have "depth t1 = depth t - 1" by (simp add: CaptureExit_def captureEndOrExit_depth)
    with ih OnExit show ?thesis by simp
  next
    case (OnStart x11 x12 x13 x14 x15 x16 x17 x18)
    with Cons.prems(1) show ?thesis by simp
  next
    case (OnEnd x41 x42 x43)
    with Cons.prems(1) show ?thesis by simp
  qed
qed

lemma sint_of_nat_small: "n < 2 ^ 63 \<Longrightarrow> sint (of_nat n :: 64 word) = int n"
  by (simp add: signed_of_nat signed_take_bit_int_eq_self)

text \<open>
  The opening procedure panics in two cases only: a self-destruct on empty \<open>Results\<close>,
  and an absent value on one of the four lines that convert it unguarded, under a
  \<^verbatim>\<open>ToBig\<close> that reads a nil receiver.
\<close>

lemma captureStartOrEnter_panics_iff:
  "(\<exists>p. captureStartOrEnter lib typ from to precompile input value t = Inl p) \<longleftrightarrow>
     typ = SELFDESTRUCT \<and> Results t = [] \<or>
     typ \<notin> {CALL, STATICCALL, DELEGATECALL, CALLCODE} \<and> value = None \<and> lib = NilPanics"
  by (auto simp: captureStartOrEnter_def Let_def ToBig_def opcode_defs
      split: option.splits nil_receiver.splits sum.splits if_splits)

text \<open>The allocation invariant holds at the start and is kept by every notification.\<close>

lemma allocated_New: "allocated NewTransactionTracer"
  by (simp add: allocated_def NewTransactionTracer_def)

lemma captureStartOrEnter_frame:
  "captureStartOrEnter lib typ from to precompile input value t = Inr t' \<Longrightarrow>
     depth t' = depth t \<and> stack t' = stack t @ [nxt t] \<and> nxt t' = Suc (nxt t) \<and>
     Results t' = (if precompile then Results t else Results t @ [nxt t]) \<and>
     (\<forall>a. a \<noteq> nxt t \<longrightarrow> heap t' a = heap t a)"
  by (auto simp: captureStartOrEnter_def Let_def split: if_splits sum.splits)

lemma captureEndOrExit_frame:
  "captureEndOrExit output usedGas err t = Inr t' \<Longrightarrow>
     stack t' = butlast (stack t) \<and> Results t' = Results t \<and> nxt t' = nxt t"
  by (auto simp: captureEndOrExit_def Let_def butlast_conv_take split: if_splits)

lemma allocated_open:
  assumes "allocated t" and "captureStartOrEnter lib typ from to precompile input value t = Inr t'"
  shows "allocated t'"
proof -
  note fr = captureStartOrEnter_frame [OF assms(2)]
  from assms(1) have "\<forall>a\<in>set (Results t). a < Suc (nxt t)" "\<forall>a\<in>set (stack t). a < Suc (nxt t)"
    by (auto simp: allocated_def list_all_iff)
  with fr show ?thesis by (simp add: allocated_def list_all_iff)
qed

lemma allocated_close:
  assumes "allocated t" and "captureEndOrExit output usedGas err t = Inr t'"
  shows "allocated t'"
proof -
  note fr = captureEndOrExit_frame [OF assms(2)]
  from assms(1) have "\<forall>a\<in>set (butlast (stack t)). a < nxt t"
    by (auto simp: allocated_def list_all_iff dest: in_set_butlastD)
  with fr assms(1) show ?thesis by (simp add: allocated_def list_all_iff)
qed

lemma allocated_notify: "allocated t \<Longrightarrow> notify lib n t = Inr t' \<Longrightarrow> allocated t'"
proof (cases n)
  case (OnStart x11 x12 x13 x14 x15 x16 x17 x18)
  assume a: "allocated t" and r: "notify lib n t = Inr t'"
  from a have "allocated (t\<lparr>depth := 0\<rparr>)" by (simp add: allocated_def)
  with r OnStart show ?thesis by (auto simp: CaptureStart_def dest: allocated_open)
next
  case (OnEnter x21 x22 x23 x24 x25 x26 x27 x28 x29)
  assume a: "allocated t" and r: "notify lib n t = Inr t'"
  from a have "allocated (t\<lparr>depth := depth t + 1\<rparr>)" by (simp add: allocated_def)
  with r OnEnter show ?thesis by (auto simp: CaptureEnter_def dest: allocated_open)
next
  case (OnExit x31 x32 x33)
  assume "allocated t" and "notify lib n t = Inr t'"
  with OnExit show ?thesis by (auto simp: CaptureExit_def dest: allocated_close)
next
  case (OnEnd x41 x42 x43)
  assume "allocated t" and "notify lib n t = Inr t'"
  with OnEnd show ?thesis by (auto simp: CaptureEnd_def dest: allocated_close)
qed

lemma allocated_run: "allocated t \<Longrightarrow> run lib ns t = Inr t' \<Longrightarrow> allocated t'"
  by (induction ns arbitrary: t) (auto split: sum.splits dest: allocated_notify)

subsection \<open>Closing notifications\<close>

text \<open>
  C3. A closing notification (\<open>CaptureExit\<close> or \<open>CaptureEnd\<close>) on an empty pending stack
  fails: line 124 indexes the stack at \<open>-1\<close> and the runtime panics, no state is returned.
  On a non-empty pending stack it returns, and the recorder it leaves differs from the one
  it found in exactly this: the depth counter is one less, the top address is gone from the
  stack, and the entry at that address has a copy of the notification's output bytes as its
  \<open>Output\<close>.
\<close>

theorem C3_close_pops_or_panics:
  assumes "close = CaptureExit \<or> close = CaptureEnd"
  shows "(stack t = [] \<longrightarrow> close output usedGas err t = Inl IndexOutOfRange) \<and>
         (stack t \<noteq> [] \<longrightarrow>
            close output usedGas err t =
              Inr (t\<lparr>depth := depth t - 1,
                     stack := butlast (stack t),
                     heap := (heap t)(last (stack t) :=
                               (heap t (last (stack t)))\<lparr>Output := Some output\<rparr>)\<rparr>))"
  using assms
  by (auto simp: CaptureExit_def CaptureEnd_def captureEndOrExit_def Let_def last_conv_nth
      butlast_conv_take)

theorem C3_close_pops_or_panics_witness:
  "CaptureExit [1, 2] 0 None NewTransactionTracer = Inl IndexOutOfRange \<and>
   map_sum id (\<lambda>t. (sint (depth t), stack t, map Output (trace t)))
     (run NilPanics [OnStart 1 2 False False [] 0 None [], OnEnd [1, 2] 0 None]
        NewTransactionTracer) =
   Inr (- 1, [], [Some [1, 2]])"
proof -
  let ?e = "\<lparr>Type = ''CALL'', Depth = 0, From = 1, To = 2, Value = Some 0, Input = Some [],
            Output = None\<rparr>"
  let ?t1 = "NewTransactionTracer\<lparr>depth := 0, heap := (heap NewTransactionTracer)(0 := ?e),
               nxt := Suc 0, Results := [0], stack := [0]\<rparr>"
  have s: "CaptureStart NilPanics 1 2 False False [] 0 None [] NewTransactionTracer = Inr ?t1"
    by (simp add: CaptureStart_def captureStartOrEnter_def Let_def NewTransactionTracer_def)
  have e: "stack NewTransactionTracer = []" by (simp add: NewTransactionTracer_def)
  have ne: "stack ?t1 \<noteq> []" by simp
  from C3_close_pops_or_panics [of CaptureExit NewTransactionTracer "[1, 2]" 0 None] e
  have 1: "CaptureExit [1, 2] 0 None NewTransactionTracer = Inl IndexOutOfRange" by simp
  from C3_close_pops_or_panics [of CaptureEnd ?t1 "[1, 2]" 0 None] ne
  have 2: "CaptureEnd [1, 2] 0 None ?t1 =
      Inr (?t1\<lparr>depth := depth ?t1 - 1, stack := butlast (stack ?t1),
             heap := (heap ?t1)(last (stack ?t1) :=
                       (heap ?t1 (last (stack ?t1)))\<lparr>Output := Some [1, 2]\<rparr>)\<rparr>)"
    by simp
  show ?thesis by (simp add: 1 s 2 trace_def)
qed

text \<open>
  C10. The closing procedure never reads \<open>usedGas\<close> or \<open>err\<close>: from the same recorder
  and with the same output bytes, two closing notifications that differ in them give the
  same result, the same panic or the same recorder. A call that failed is closed exactly
  as one that succeeded.
\<close>

theorem C10_close_ignores_gas_and_error:
  "captureEndOrExit output usedGas err t = captureEndOrExit output usedGas' err' t \<and>
   CaptureExit output usedGas err t = CaptureExit output usedGas' err' t \<and>
   CaptureEnd output usedGas err t = CaptureEnd output usedGas' err' t"
  by (simp add: CaptureExit_def CaptureEnd_def captureEndOrExit_def)

subsection \<open>Opening notifications, kind by kind\<close>

text \<open>
  C7. An on-enter notification of kind STATICCALL or DELEGATECALL always returns, and the
  entry it makes (allocated at the next address, pushed on the stack, appended to the
  results unless precompiled) has no \<open>Value\<close>, whatever value the notification carried.
\<close>

theorem C7_static_and_delegate_carry_no_value:
  assumes "typ = STATICCALL \<or> typ = DELEGATECALL"
  shows "CaptureEnter lib typ from to precompile create input gas value code t =
    Inr (t\<lparr>depth := depth t + 1,
           heap := (heap t)(nxt t :=
             \<lparr>Type = (if typ = STATICCALL then ''STATICCALL'' else ''DELEGATECALL''),
              Depth = depth t + 1, From = from, To = to, Value = None,
              Input = Some input, Output = None\<rparr>),
           nxt := Suc (nxt t),
           Results := (if precompile then Results t else Results t @ [nxt t]),
           stack := stack t @ [nxt t]\<rparr>)"
  using assms by (auto simp: CaptureEnter_def captureStartOrEnter_def Let_def opcode_defs)

theorem C7_static_and_delegate_carry_no_value_witness:
  "map_sum id (map Value \<circ> trace)
     (CaptureEnter NilPanics STATICCALL 1 2 False False [] 0 (Some 5) [] NewTransactionTracer) =
   Inr [None] \<and>
   map_sum id (map Value \<circ> trace)
     (CaptureEnter NilPanics DELEGATECALL 1 2 False False [] 0 (Some 5) [] NewTransactionTracer) =
   Inr [None]"
  by (simp add: C7_static_and_delegate_carry_no_value trace_def NewTransactionTracer_def)

text \<open>
  C8. An on-enter notification of kind CREATE or CREATE2 with a present value returns
  (the conversion of line 89 or 91 is applied to a non-nil pointer), and the entry it
  makes carries that value as an integer of its own. The recorder has no guard for an
  absent value on these two lines, unlike lines 75-77: what happens then is what \<^verbatim>\<open>ToBig\<close>
  does on a nil receiver, a panic or an entry without value, and never a guessed zero.
\<close>

theorem C8_create_requires_value:
  assumes "typ = CREATE \<or> typ = CREATE2"
  shows "CaptureEnter lib typ from to precompile create input gas (Some w) code t =
      Inr (t\<lparr>depth := depth t + 1,
             heap := (heap t)(nxt t :=
               \<lparr>Type = (if typ = CREATE then ''CREATE'' else ''CREATE2''),
                Depth = depth t + 1, From = from, To = to, Value = Some (uint w),
                Input = Some input, Output = None\<rparr>),
             nxt := Suc (nxt t),
             Results := (if precompile then Results t else Results t @ [nxt t]),
             stack := stack t @ [nxt t]\<rparr>) \<and>
    CaptureEnter lib typ from to precompile create input gas None code t =
      (case lib of
         NilPanics \<Rightarrow> Inl NilDereference
       | NilReturnsNil \<Rightarrow>
           Inr (t\<lparr>depth := depth t + 1,
                  heap := (heap t)(nxt t :=
                    \<lparr>Type = (if typ = CREATE then ''CREATE'' else ''CREATE2''),
                     Depth = depth t + 1, From = from, To = to, Value = None,
                     Input = Some input, Output = None\<rparr>),
                  nxt := Suc (nxt t),
                  Results := (if precompile then Results t else Results t @ [nxt t]),
                  stack := stack t @ [nxt t]\<rparr>))"
  using assms
  by (auto simp: CaptureEnter_def captureStartOrEnter_def Let_def ToBig_def opcode_defs
      split: nil_receiver.splits)

theorem C8_create_requires_value_witness:
  "map_sum id (map Value \<circ> trace)
     (CaptureEnter NilPanics CREATE 1 2 False False [] 0 (Some 5) [] NewTransactionTracer) =
   Inr [Some 5] \<and>
   map_sum id (map Value \<circ> trace)
     (CaptureEnter NilReturnsNil CREATE2 1 2 False False [] 0 (Some 7) [] NewTransactionTracer) =
   Inr [Some 7] \<and>
   CaptureEnter NilPanics CREATE2 1 2 False False [] 0 None [] NewTransactionTracer =
   Inl NilDereference"
  by (simp add: C8_create_requires_value trace_def NewTransactionTracer_def)




text \<open>
  C9. A self-destruct notification that arrives while \<open>Results\<close> is empty panics: line
  93 indexes \<open>Results\<close> at \<open>-1\<close>, whatever the other arguments are. This is so after a
  start whose target is precompiled, which pushes its entry and leaves \<open>Results\<close> empty.
\<close>

theorem C9_selfdestruct_needs_a_visible_entry:
  assumes "Results t = []"
  shows "CaptureEnter lib SELFDESTRUCT from to precompile create input gas value code t =
         Inl IndexOutOfRange"
  using assms by (simp add: CaptureEnter_def captureStartOrEnter_def Let_def opcode_defs)

theorem C9_selfdestruct_needs_a_visible_entry_witness:
  "map_sum id (\<lambda>t. (Results t, stack t))
     (CaptureStart NilReturnsNil 1 2 True False [] 0 (Some 0) [] NewTransactionTracer) =
   Inr ([], [0]) \<and>
   run NilReturnsNil
     [OnStart 1 2 True False [] 0 (Some 0) [],
      OnEnter SELFDESTRUCT 2 3 False False [] 0 (Some 0) []] NewTransactionTracer =
   Inl IndexOutOfRange"
proof -
  obtain t1 where s: "CaptureStart NilReturnsNil 1 2 True False [] 0 (Some 0) [] NewTransactionTracer = Inr t1"
    and r: "Results t1 = []" and st: "stack t1 = [0]"
    by (simp add: CaptureStart_def captureStartOrEnter_def Let_def NewTransactionTracer_def)
  from C9_selfdestruct_needs_a_visible_entry [OF r]
  have "CaptureEnter NilReturnsNil SELFDESTRUCT 2 3 False False [] 0 (Some 0) [] t1 = Inl IndexOutOfRange" .
  with s r st show ?thesis by simp
qed

text \<open>
  C1, as the spec has it, fails on the code: after onStart(1 to 2) and a self-destruct
  notification 2 to 3, the pending stack holds the SELFDESTRUCT entry above the CALL entry
  (line 107 pushes every entry), and the closing notification that follows stores its
  output bytes [7] in the SELFDESTRUCT entry, not in the CALL entry. And a self-destruct
  notification flagged precompiled is not appended to the results (line 102).
\<close>

theorem C1_counterexample:
  "map_sum id pending
     (run NilReturnsNil
        [OnStart 1 2 False False [] 0 (Some 0) [],
         OnEnter SELFDESTRUCT 2 3 False False [] 0 (Some 5) []] NewTransactionTracer) =
   Inr [\<lparr>Type = ''CALL'', Depth = 0, From = 1, To = 2, Value = Some 0, Input = Some [],
         Output = None\<rparr>,
        \<lparr>Type = ''SELFDESTRUCT'', Depth = 1, From = 2, To = 3, Value = Some 5, Input = None,
         Output = None\<rparr>] \<and>
   map_sum id trace
     (run NilReturnsNil
        [OnStart 1 2 False False [] 0 (Some 0) [],
         OnEnter SELFDESTRUCT 2 3 False False [] 0 (Some 5) [],
         OnExit [7] 0 None] NewTransactionTracer) =
   Inr [\<lparr>Type = ''CALL'', Depth = 0, From = 1, To = 2, Value = Some 0, Input = Some [],
         Output = None\<rparr>,
        \<lparr>Type = ''SELFDESTRUCT'', Depth = 1, From = 2, To = 3, Value = Some 5, Input = None,
         Output = Some [7]\<rparr>] \<and>
   map_sum id trace
     (run NilReturnsNil
        [OnStart 1 2 False False [] 0 (Some 0) [],
         OnEnter SELFDESTRUCT 2 3 True False [] 0 (Some 5) []] NewTransactionTracer) =
   Inr [\<lparr>Type = ''CALL'', Depth = 0, From = 1, To = 2, Value = Some 0, Input = Some [],
         Output = None\<rparr>]"
  by (simp add: capture_defs NewTransactionTracer_def Let_def trace_def pending_def ToBig_def
      opcode_defs)

text \<open>
  C1, amended. A self-destruct notification that arrives while \<open>Results\<close> is not empty,
  and whose value \<^verbatim>\<open>ToBig\<close> converts, returns. It raises the depth counter by one and makes
  a SELFDESTRUCT entry whose depth is one more than the depth of the last entry of
  \<open>Results\<close>, with no input and no output. The entry is appended to \<open>Results\<close> unless the
  notification is flagged precompiled, and it is pushed on the pending stack like an entry
  of any other kind: the next closing notification pops it, stores a copy of its output
  bytes in it, and brings the depth counter and the stack back to what they were.
\<close>

theorem C1_selfdestruct_entry:
  assumes "Results t \<noteq> []" and "ToBig lib value = Inr v"
  shows "\<exists>t'. CaptureEnter lib SELFDESTRUCT from to precompile create input gas value code t = Inr t' \<and>
      t' = t\<lparr>depth := depth t + 1,
              heap := (heap t)(nxt t :=
                \<lparr>Type = ''SELFDESTRUCT'', Depth = Depth (heap t (last (Results t))) + 1,
                 From = from, To = to, Value = v, Input = None, Output = None\<rparr>),
              nxt := Suc (nxt t),
              Results := (if precompile then Results t else Results t @ [nxt t]),
              stack := stack t @ [nxt t]\<rparr> \<and>
      captureEndOrExit output usedGas err t' =
        Inr (t'\<lparr>depth := depth t, stack := stack t,
                heap := (heap t')(nxt t := (heap t' (nxt t))\<lparr>Output := Some output\<rparr>)\<rparr>)"
  using assms
  by (simp add: CaptureEnter_def captureStartOrEnter_def captureEndOrExit_def Let_def opcode_defs
      last_conv_nth)

theorem C1_selfdestruct_entry_witness:
  "map_sum id (\<lambda>t. (trace t, stack t, sint (depth t)))
     (run NilPanics
        [OnStart 1 2 False False [] 0 None [],
         OnEnter SELFDESTRUCT 2 3 False False [] 0 (Some 5) []] NewTransactionTracer) =
   Inr ([\<lparr>Type = ''CALL'', Depth = 0, From = 1, To = 2, Value = Some 0, Input = Some [],
          Output = None\<rparr>,
         \<lparr>Type = ''SELFDESTRUCT'', Depth = 1, From = 2, To = 3, Value = Some 5, Input = None,
          Output = None\<rparr>], [0, 1], 1)"
proof -
  let ?e = "\<lparr>Type = ''CALL'', Depth = 0, From = 1, To = 2, Value = Some 0, Input = Some [],
            Output = None\<rparr>"
  let ?t = "NewTransactionTracer\<lparr>depth := 0, heap := (heap NewTransactionTracer)(0 := ?e),
              nxt := Suc 0, Results := [0], stack := [0]\<rparr>"
  have s: "CaptureStart NilPanics 1 2 False False [] 0 None [] NewTransactionTracer = Inr ?t"
    by (simp add: CaptureStart_def captureStartOrEnter_def Let_def NewTransactionTracer_def)
  have r: "Results ?t \<noteq> []" by simp
  have b: "ToBig NilPanics (Some 5) = Inr (Some 5)" by (simp add: ToBig_def)
  from C1_selfdestruct_entry [OF r b, of 2 3 False False "[]" 0 "[]"]
  obtain t' where "CaptureEnter NilPanics SELFDESTRUCT 2 3 False False [] 0 (Some 5) [] ?t = Inr t'"
    and "t' = ?t\<lparr>depth := depth ?t + 1,
              heap := (heap ?t)(nxt ?t :=
                \<lparr>Type = ''SELFDESTRUCT'', Depth = Depth (heap ?t (last (Results ?t))) + 1,
                 From = 2, To = 3, Value = Some 5, Input = None, Output = None\<rparr>),
              nxt := Suc (nxt ?t),
              Results := (if False then Results ?t else Results ?t @ [nxt ?t]),
              stack := stack ?t @ [nxt ?t]\<rparr>"
    by blast
  with s show ?thesis
    by (simp add: trace_def)
qed

subsection \<open>Precompiled targets\<close>

text \<open>
  What a returning precompiled \<open>CaptureStart\<close> or \<open>CaptureEnter\<close> leaves: \<open>Results\<close>
  as it was, the new address on the stack, the store written at that address only, and in
  everything but \<open>Results\<close> the recorder of the same call not flagged precompiled.
\<close>

lemma precompiled_frame:
  assumes "opn = CaptureStart lib from to \<or> opn = CaptureEnter lib typ from to"
    and "opn True create input gas value code t = Inr t'"
  shows "Results t' = Results t \<and> stack t' = stack t @ [nxt t] \<and> nxt t' = Suc (nxt t) \<and>
         (\<forall>a. a \<noteq> nxt t \<longrightarrow> heap t' a = heap t a) \<and>
         (allocated t \<longrightarrow> trace t' = trace t) \<and>
         opn False create input gas value code t = Inr (t'\<lparr>Results := Results t @ [nxt t]\<rparr>)"
proof -
  from assms(1) obtain k d where
    o: "\<And>pc. opn pc create input gas value code t =
          captureStartOrEnter lib k from to pc input value (t\<lparr>depth := d\<rparr>)"
  proof
    assume "opn = CaptureStart lib from to"
    then have "\<And>pc. opn pc create input gas value code t =
        captureStartOrEnter lib CALL from to pc input value (t\<lparr>depth := 0\<rparr>)"
      by (simp add: CaptureStart_def)
    then show thesis by (rule that)
  next
    assume "opn = CaptureEnter lib typ from to"
    then have "\<And>pc. opn pc create input gas value code t =
        captureStartOrEnter lib typ from to pc input value (t\<lparr>depth := depth t + 1\<rparr>)"
      by (simp add: CaptureEnter_def)
    then show thesis by (rule that)
  qed
  from assms(2) o have r: "captureStartOrEnter lib k from to True input value (t\<lparr>depth := d\<rparr>) = Inr t'"
    by simp
  note fr = captureStartOrEnter_frame [OF r]
  from fr have 1: "Results t' = Results t" and 2: "stack t' = stack t @ [nxt t]"
    and 3: "nxt t' = Suc (nxt t)" and 4: "\<forall>a. a \<noteq> nxt t \<longrightarrow> heap t' a = heap t a"
    by simp_all
  have 5: "trace t' = trace t" if "allocated t"
  proof -
    from that have "\<forall>a\<in>set (Results t). a \<noteq> nxt t"
      by (auto simp: allocated_def list_all_iff)
    with 1 4 show ?thesis by (simp add: trace_def)
  qed
  from r have "captureStartOrEnter lib k from to False input value (t\<lparr>depth := d\<rparr>) =
      Inr (t'\<lparr>Results := Results t @ [nxt t]\<rparr>)"
    by (auto simp: captureStartOrEnter_def Let_def split: if_splits sum.splits)
  with o have 6: "opn False create input gas value code t = Inr (t'\<lparr>Results := Results t @ [nxt t]\<rparr>)"
    by simp
  from 1 2 3 4 5 6 show ?thesis by blast
qed

text \<open>When \<open>CaptureStart\<close> and \<open>CaptureEnter\<close> return: the first always, the second unless
  the opening procedure panics.\<close>

lemma CaptureStart_returns:
  "\<exists>t'. CaptureStart lib from to precompile create input gas value code t = Inr t'"
  by (simp add: CaptureStart_def captureStartOrEnter_def Let_def)

lemma CaptureEnter_returns:
  assumes "\<not> (typ = SELFDESTRUCT \<and> Results t = [])"
    and "typ \<in> {CALL, STATICCALL, DELEGATECALL, CALLCODE} \<or> value \<noteq> None \<or> lib = NilReturnsNil"
  shows "\<exists>t'. CaptureEnter lib typ from to precompile create input gas value code t = Inr t'"
proof -
  let ?r = "captureStartOrEnter lib typ from to precompile input value (t\<lparr>depth := depth t + 1\<rparr>)"
  from assms have "\<not> (\<exists>p. ?r = Inl p)"
    by (auto simp: captureStartOrEnter_panics_iff intro: nil_receiver.exhaust)
  then obtain t' where "?r = Inr t'" by (cases ?r) auto
  then show ?thesis by (auto simp: CaptureEnter_def)
qed

text \<open>
  C4, as stated for every precompiled on-enter notification, fails on the code where the
  opening procedure panics before line 107: after a precompiled start the stack holds one
  entry and \<open>Results\<close> is empty, and a precompiled self-destruct notification then panics
  on line 93, so no entry is pushed for it.
\<close>

theorem C4_counterexample:
  "map_sum id (\<lambda>t. (Results t, stack t))
     (run NilReturnsNil [OnStart 1 2 True False [] 0 (Some 0) []] NewTransactionTracer) =
   Inr ([], [0]) \<and>
   run NilReturnsNil
     [OnStart 1 2 True False [] 0 (Some 0) [],
      OnEnter SELFDESTRUCT 2 3 True False [] 0 (Some 0) []] NewTransactionTracer =
   Inl IndexOutOfRange"
  by (simp add: capture_defs NewTransactionTracer_def Let_def opcode_defs)

text \<open>
  C4, amended. Every on-start notification flagged precompiled returns, and so does every
  on-enter notification flagged precompiled that is outside the two panics of the opening
  procedure (a self-destruct on empty \<open>Results\<close>; an absent value on a line that converts
  it unguarded, under a \<^verbatim>\<open>ToBig\<close> that reads a nil receiver). It leaves \<open>Results\<close> as it
  was and pushes the address of the entry it made on the pending stack. The store is
  written at that fresh address only, so under the allocation invariant the entries
  \<open>Results\<close> leads to are unchanged too. In everything but \<open>Results\<close> the recorder is
  the one the same notification leaves when it is not flagged precompiled.
\<close>

theorem C4_precompiled_is_pending_only:
  assumes "opn = CaptureStart lib from to \<or>
           opn = CaptureEnter lib typ from to \<and>
           \<not> (typ = SELFDESTRUCT \<and> Results t = []) \<and>
           (typ \<in> {CALL, STATICCALL, DELEGATECALL, CALLCODE} \<or> value \<noteq> None \<or>
            lib = NilReturnsNil)"
  shows "\<exists>t'. opn True create input gas value code t = Inr t' \<and>
           Results t' = Results t \<and> stack t' = stack t @ [nxt t] \<and> nxt t' = Suc (nxt t) \<and>
           (\<forall>a. a \<noteq> nxt t \<longrightarrow> heap t' a = heap t a) \<and>
           (allocated t \<longrightarrow> trace t' = trace t) \<and>
           opn False create input gas value code t = Inr (t'\<lparr>Results := Results t @ [nxt t]\<rparr>)"
proof -
  from assms have k: "opn = CaptureStart lib from to \<or> opn = CaptureEnter lib typ from to"
    by blast
  have "\<exists>t'. opn True create input gas value code t = Inr t'"
  proof (cases "opn = CaptureStart lib from to")
    case True
    then show ?thesis by (simp add: CaptureStart_returns)
  next
    case False
    with assms have e: "opn = CaptureEnter lib typ from to"
      and a: "\<not> (typ = SELFDESTRUCT \<and> Results t = [])"
      and b: "typ \<in> {CALL, STATICCALL, DELEGATECALL, CALLCODE} \<or> value \<noteq> None \<or>
              lib = NilReturnsNil"
      by blast+
    from CaptureEnter_returns [OF a b] e show ?thesis by simp
  qed
  then obtain t' where r: "opn True create input gas value code t = Inr t'" ..
  from precompiled_frame [OF k r] r show ?thesis by blast
qed

theorem C4_precompiled_is_pending_only_witness:
  "map_sum id (\<lambda>t. (trace t, stack t))
     (CaptureStart NilPanics 1 2 True False [] 0 None [] NewTransactionTracer) =
   Inr ([], [0]) \<and>
   map_sum id (\<lambda>t. (Results t, stack t))
     (run NilPanics
        [OnStart 1 2 False False [] 0 None [],
         OnEnter STATICCALL 2 4 True False [] 0 None []] NewTransactionTracer) =
   Inr ([0], [0, 1]) \<and>
   map_sum id (\<lambda>t. (Results t, stack t))
     (run NilPanics
        [OnStart 1 2 False False [] 0 None [],
         OnEnter STATICCALL 2 4 False False [] 0 None []] NewTransactionTracer) =
   Inr ([0, 1], [0, 1])"
proof -
  let ?t = NewTransactionTracer
  have n: "nxt ?t = 0" "Results ?t = []" "stack ?t = []"
    by (simp_all add: NewTransactionTracer_def)
  from C4_precompiled_is_pending_only [of "CaptureStart NilPanics 1 2" NilPanics 1 2 CALL ?t
      None False "[]" 0 "[]"]
  obtain t' where "CaptureStart NilPanics 1 2 True False [] 0 None [] ?t = Inr t'"
    and "Results t' = Results ?t" and "stack t' = stack ?t @ [nxt ?t]"
    and "allocated ?t \<longrightarrow> trace t' = trace ?t"
    by blast
  with n allocated_New
  have 1: "map_sum id (\<lambda>t. (trace t, stack t))
      (CaptureStart NilPanics 1 2 True False [] 0 None [] ?t) = Inr ([], [0])"
    by (simp add: trace_def)
  let ?e = "\<lparr>Type = ''CALL'', Depth = 0, From = 1, To = 2, Value = Some 0, Input = Some [],
            Output = None\<rparr>"
  let ?t1 = "?t\<lparr>depth := 0, heap := (heap ?t)(0 := ?e), nxt := Suc 0, Results := [0],
              stack := [0]\<rparr>"
  have s: "CaptureStart NilPanics 1 2 False False [] 0 None [] ?t = Inr ?t1"
    by (simp add: CaptureStart_def captureStartOrEnter_def Let_def NewTransactionTracer_def)
  have c: "CaptureEnter NilPanics STATICCALL 2 4 = CaptureStart NilPanics 2 4 \<or>
           CaptureEnter NilPanics STATICCALL 2 4 = CaptureEnter NilPanics STATICCALL 2 4 \<and>
           \<not> (STATICCALL = SELFDESTRUCT \<and> Results ?t1 = []) \<and>
           (STATICCALL \<in> {CALL, STATICCALL, DELEGATECALL, CALLCODE} \<or> (None :: uint256 option) \<noteq> None \<or>
            NilPanics = NilReturnsNil)"
    by simp
  from C4_precompiled_is_pending_only [OF c, of False "[]" 0 "[]"]
  obtain t2 where "CaptureEnter NilPanics STATICCALL 2 4 True False [] 0 None [] ?t1 = Inr t2"
    and "Results t2 = Results ?t1" and "stack t2 = stack ?t1 @ [nxt ?t1]"
    and "CaptureEnter NilPanics STATICCALL 2 4 False False [] 0 None [] ?t1 =
           Inr (t2\<lparr>Results := Results ?t1 @ [nxt ?t1]\<rparr>)"
    by blast
  with s have 2: "map_sum id (\<lambda>t. (Results t, stack t))
      (run NilPanics [OnStart 1 2 False False [] 0 None [],
         OnEnter STATICCALL 2 4 True False [] 0 None []] ?t) = Inr ([0], [0, 1])"
    and 3: "map_sum id (\<lambda>t. (Results t, stack t))
      (run NilPanics [OnStart 1 2 False False [] 0 None [],
         OnEnter STATICCALL 2 4 False False [] 0 None []] ?t) = Inr ([0, 1], [0, 1])"
    by simp_all
  from 1 2 3 show ?thesis by blast
qed

subsection \<open>Scenario B\<close>

text \<open>
  C6. The stream onStart(A to B), onEnter(CALL, B to C), onExit(output [1, 2]),
  onEnd(output []), neither target precompiled, given to a fresh recorder: it runs without
  panic; the results are two entries in this order, a CALL of depth 0 from A to B with
  output [] and a CALL of depth 1 from B to C with output [1, 2]; the pending stack is
  empty at the end. Every other argument of the four notifications is arbitrary.
\<close>

theorem C6_scenario_B:
  "\<exists>t. run lib
         [OnStart A B False create1 input1 gas1 value1 code1,
          OnEnter CALL B C False create2 input2 gas2 value2 code2,
          OnExit [1, 2] usedGas1 err1,
          OnEnd [] usedGas2 err2] NewTransactionTracer = Inr t \<and>
       trace t =
         [\<lparr>Type = ''CALL'', Depth = 0, From = A, To = B,
           Value = Some (case value1 of None \<Rightarrow> 0 | Some w \<Rightarrow> uint w),
           Input = Some input1, Output = Some []\<rparr>,
          \<lparr>Type = ''CALL'', Depth = 1, From = B, To = C,
           Value = Some (case value2 of None \<Rightarrow> 0 | Some w \<Rightarrow> uint w),
           Input = Some input2, Output = Some [1, 2]\<rparr>] \<and>
       stack t = []"
  by (simp add: CaptureStart_def CaptureEnter_def CaptureExit_def CaptureEnd_def
      captureStartOrEnter_def captureEndOrExit_def NewTransactionTracer_def Let_def trace_def)

subsection \<open>The depth of an entry\<close>

text \<open>
  C5, as stated for every entry an on-enter notification makes, fails on the code for the
  kind SELFDESTRUCT, whose entry takes its depth from the last entry of \<open>Results\<close> (line
  94) and not from the depth counter. In the well-formed stream below, the call from 2 to
  3 is closed when 2 self-destructs: one enter is open when the SELFDESTRUCT entry is
  made, and the entry has depth 2.
\<close>

theorem C5_counterexample:
  "well_formed
     ([OnStart 1 2 False False [] 0 (Some 0) [],
       OnEnter CALL 2 3 False False [] 0 (Some 0) [],
       OnExit [] 0 None] @
      OnEnter SELFDESTRUCT 2 4 False False [] 0 (Some 0) [] #
      [OnExit [] 0 None, OnEnd [] 0 None]) \<and>
   map_sum id (sint \<circ> Depth \<circ> newest)
     (run NilReturnsNil
        ([OnStart 1 2 False False [] 0 (Some 0) [],
          OnEnter CALL 2 3 False False [] 0 (Some 0) [],
          OnExit [] 0 None] @
         [OnEnter SELFDESTRUCT 2 4 False False [] 0 (Some 0) []]) NewTransactionTracer) =
   Inr 2 \<and>
   open_enters
     ([OnStart 1 2 False False [] 0 (Some 0) [],
       OnEnter CALL 2 3 False False [] 0 (Some 0) [],
       OnExit [] 0 None] @
      [OnEnter SELFDESTRUCT 2 4 False False [] 0 (Some 0) []]) = 1"
  by (simp add: capture_defs NewTransactionTracer_def Let_def newest_def ToBig_def opcode_defs
      open_enters_def)

text \<open>
  C5, amended. Take a well-formed stream and in it an on-start, or an on-enter of a kind
  other than SELFDESTRUCT. If the recorder, from any state, gets through the stream up to
  and including that notification, then the depth of the entry the notification makes is
  the number of enters of the stream so far that no exit has closed (there are never more
  exits than enters, so the difference counts them), and it is 0 for the on-start. The
  depth is a Go \<^verbatim>\<open>int\<close>: it is that number as a 64-bit integer, and read as a signed integer
  it is that number for every stream shorter than \<open>2 ^ 63\<close> notifications.
\<close>

theorem C5_depth_counts_open_enters:
  assumes wf: "well_formed (pre @ n # post)"
    and opn: "opens n = Some typ"
    and kind: "typ \<noteq> SELFDESTRUCT"
    and ok: "run lib (pre @ [n]) t0 = Inr t"
  shows "Depth (newest t) = of_nat (open_enters (pre @ [n])) \<and>
         length (filter is_exit (pre @ [n])) \<le> length (filter is_enter (pre @ [n])) \<and>
         (length (pre @ n # post) < 2 ^ 63 \<longrightarrow>
            sint (Depth (newest t)) = int (open_enters (pre @ [n]))) \<and>
         (\<not> is_enter n \<longrightarrow> Depth (newest t) = 0)"
proof (cases pre)
  case Nil
  with wf obtain a b pc cr inp g v cd
    where n: "n = OnStart a b pc cr inp g v cd"
    by (cases n) auto
  from ok Nil n have "Depth (newest t) = 0"
    by (auto simp: CaptureStart_def captureStartOrEnter_def Let_def newest_def)
  with Nil n show ?thesis by (simp add: open_enters_def)
next
  case (Cons s pre')
  with wf obtain a b pc cr inp g v cd
    where s: "s = OnStart a b pc cr inp g v cd"
      and nest: "nested 0 (pre' @ n # post)"
    by (cases s) auto
  from nest opn have ent: "is_enter n" by (simp add: nested_opens_enter)
  then obtain typ' a' b' pc' cr' inp' g' v' cd'
    where n: "n = OnEnter typ' a' b' pc' cr' inp' g' v' cd'"
    by (cases n) auto
  with opn have typ': "typ' = typ" by simp
  from nested_prefix [OF nest]
  have all: "list_all (\<lambda>m. is_enter m \<or> is_exit m) pre'"
    and le: "length (filter is_exit pre') \<le> length (filter is_enter pre')"
    by simp_all
  from ok Cons obtain t1 where t1: "notify lib s t0 = Inr t1"
    and r1: "run lib (pre' @ [n]) t1 = Inr t"
    by (auto split: sum.splits)
  from r1 obtain t2 where t2: "run lib pre' t1 = Inr t2" and fin: "notify lib n t2 = Inr t"
    by (auto simp: run_append split: sum.splits)
  from t1 s have d1: "depth t1 = 0"
    by (auto simp: CaptureStart_def captureStartOrEnter_def Let_def)
  let ?E = "length (filter is_enter pre')" and ?X = "length (filter is_exit pre')"
  have oe: "open_enters (pre @ [n]) = Suc ?E - ?X"
    using Cons s n by (simp add: open_enters_def)
  from run_depth [OF all t2] d1 have d2: "depth t2 = of_nat ?E - of_nat ?X" by simp
  from fin n kind typ' have "Depth (newest t) = depth t2 + 1"
    by (simp add: CaptureEnter_Depth)
  with d2 le have D: "Depth (newest t) = of_nat (Suc ?E - ?X)"
    by (simp add: Suc_diff_le)
  have S: "sint (Depth (newest t)) = int (Suc ?E - ?X)" if "length (pre @ n # post) < 2 ^ 63"
  proof -
    have "Suc ?E - ?X \<le> length (pre @ n # post)"
      using Cons by (simp add: le_SucI diff_le_mono2 trans_le_add1 le_diff_conv)
    with that have "Suc ?E - ?X < 2 ^ 63" by simp
    with D show ?thesis by (simp only: sint_of_nat_small)
  qed
  from Cons s n le have X: "length (filter is_exit (pre @ [n])) \<le> length (filter is_enter (pre @ [n]))"
    by simp
  from D S X ent oe show ?thesis by simp
qed

theorem C5_depth_counts_open_enters_witness:
  "well_formed
     ([OnStart 1 2 False False [] 0 (Some 0) []] @
      OnEnter CALL 2 3 False False [] 0 (Some 0) [] #
      [OnExit [1, 2] 0 None, OnEnd [] 0 None]) \<and>
   map_sum id (sint \<circ> Depth \<circ> newest)
     (run NilPanics
        ([OnStart 1 2 False False [] 0 (Some 0) []] @
         [OnEnter CALL 2 3 False False [] 0 (Some 0) []]) NewTransactionTracer) = Inr 1 \<and>
   open_enters
     ([OnStart 1 2 False False [] 0 (Some 0) []] @
      [OnEnter CALL 2 3 False False [] 0 (Some 0) []]) = 1"
proof -
  let ?pre = "[OnStart 1 2 False False [] 0 (Some 0) []]"
  let ?n = "OnEnter CALL 2 3 False False [] 0 (Some 0) []"
  let ?post = "[OnExit [1, 2] 0 None, OnEnd [] 0 None]"
  have wf: "well_formed (?pre @ ?n # ?post)" by simp
  have opn: "opens ?n = Some CALL" by simp
  have kind: "CALL \<noteq> SELFDESTRUCT" by (simp add: opcode_defs)
  obtain t where ok: "run NilPanics (?pre @ [?n]) NewTransactionTracer = Inr t"
    by (simp add: CaptureStart_def CaptureEnter_def captureStartOrEnter_def Let_def opcode_defs)
  have oe: "open_enters (?pre @ [?n]) = 1" by (simp add: open_enters_def)
  from C5_depth_counts_open_enters [OF wf opn kind ok] oe
  have "sint (Depth (newest t)) = 1" by simp
  with wf ok oe show ?thesis by simp
qed

end
